theory Spec2Isabelle
  imports Main
begin

section \<open>Data model of \<open>lib/utils/report.mjs\<close>\<close>

text \<open>
  JavaScript objects become records; a property that may be \<open>undefined\<close> is an
  \<open>option\<close>; a dictionary keyed by rule name is a map. Flags read only for their
  truthiness (\<open>quiet\<close>, \<open>config.fix\<close>, \<open>config.ignoreDisables\<close>, \<open>disableFix\<close>,
  \<open>meta.fixable\<close>) are booleans, an absent flag being \<open>False\<close>. Line numbers are
  integers.
\<close>

record Position =
  line :: int
  column :: int

record Range =
  range_start :: "Position option"
  range_end :: "Position option"

text \<open>A document node: \<open>decl_value\<close> is \<open>decl.value\<close> of a declaration node,
  \<open>rangeBy\<close> the method \<open>node.rangeBy({ index, endIndex })\<close>.\<close>

record node =
  decl_value :: string
  rangeBy :: "int option \<Rightarrow> int option \<Rightarrow> Range"

text \<open>Message arguments: the values the rules pass are strings and numbers.\<close>

datatype arg = Str string | Num int

text \<open>A severity or a message is either a literal or a function of the message
  arguments; a severity function may return nothing (\<open>None\<close>).\<close>

datatype severity_spec = SeverityLiteral string | SeverityFn "arg list \<Rightarrow> string option"

datatype message_spec = MessageString string | MessageFn "arg list \<Rightarrow> string"

text \<open>The \<open>Problem\<close> passed to \<open>report\<close>, without its \<open>result\<close> (passed on its
  own). The \<open>fix\<close> callback takes no argument and may mutate the document: it is a
  function from the document \<open>'d\<close> to the range it returns, if any, and the new
  document. \<open>p_message\<close> is \<open>rest.message\<close>.\<close>

record 'd problem =
  p_ruleName :: string
  p_node :: "node option"
  p_index :: "int option"
  p_endIndex :: "int option"
  p_line :: "int option"
  p_start :: "Position option"
  p_end :: "Position option"
  p_word :: "string option"
  p_fix :: "('d \<Rightarrow> Range option \<times> 'd) option"
  p_message :: message_spec
  p_messageArgs :: "arg list option"
  p_severity :: "severity_spec option"

record disabledRange =
  dr_start :: int
  dr_end :: "int option"
  dr_rules :: "string list option"

text \<open>A rule's entry of \<open>config.rules\<close> is the array \<open>[primary, secondary]\<close>;
  the code reads only its element \<open>[1]\<close>, the secondary options, which may be
  absent.\<close>

record secondaryOptions =
  disableFix :: bool

record config =
  defaultSeverity :: "string option"
  ignoreDisables :: bool
  cfg_fix :: bool
  rules :: "(string \<rightharpoonup> secondaryOptions option) option"

record metadata =
  fixable :: bool

record disabledWarning =
  dw_rule :: string
  dw_line :: int

record fixerData =
  fd_range :: "Range option"
  fixed :: bool

record stylelint =
  disabledRanges :: "string \<rightharpoonup> disabledRange list"
  quiet :: bool
  ruleSeverities :: "string \<rightharpoonup> severity_spec"
  config :: "config option"
  customMessages :: "string \<rightharpoonup> message_spec"
  customUrls :: "string \<rightharpoonup> string"
  ruleMetadata :: "string \<rightharpoonup> metadata"
  disabledWarnings :: "disabledWarning list option"
  fixersData :: "string \<rightharpoonup> fixerData list"
  stylelintError :: bool
  stylelintWarning :: bool

text \<open>The options handed to \<open>result.warn\<close>, and the warning it records.\<close>

record warningProperties =
  wp_severity :: "string option"
  wp_rule :: string
  wp_node :: "node option"
  wp_start :: "Position option"
  wp_index :: "int option"
  wp_end :: "Position option"
  wp_endIndex :: "int option"
  wp_word :: "string option"
  wp_url :: "string option"

record warning =
  w_text :: string
  w_props :: warningProperties

record result =
  stylelint :: stylelint
  messages :: "warning list"

datatype error = Error string | TypeError string

text \<open>Modelled from the spec: \<open>RULE_NAME_ALL\<close> of \<open>lib/constants.mjs\<close>, which is
  not among the sources; the spec calls it the blanket "all" key.\<close>

definition RULE_NAME_ALL :: string where
  "RULE_NAME_ALL = ''all''"

section \<open>Suppression index: \<open>isDisabled\<close>\<close>

definition range_matches :: "string \<Rightarrow> int \<Rightarrow> disabledRange \<Rightarrow> bool" where
  "range_matches ruleName startLine r \<longleftrightarrow>
     dr_start r \<le> startLine \<and>
     (case dr_end r of None \<Rightarrow> True | Some e \<Rightarrow> e \<ge> startLine) \<and>
     (case dr_rules r of None \<Rightarrow> True | Some rs \<Rightarrow> ruleName \<in> set rs)"

text \<open>The \<open>for ... of\<close> loop, returning at the first range that matches.\<close>

fun isDisabled_loop :: "string \<Rightarrow> int \<Rightarrow> disabledRange list \<Rightarrow> bool" where
  "isDisabled_loop ruleName startLine [] = False"
| "isDisabled_loop ruleName startLine (r # ranges) =
     (if range_matches ruleName startLine r then True
      else isDisabled_loop ruleName startLine ranges)"

definition isDisabled :: "string \<Rightarrow> int \<Rightarrow> (string \<rightharpoonup> disabledRange list) \<Rightarrow> bool" where
  "isDisabled ruleName startLine table =
     isDisabled_loop ruleName startLine
       (case table ruleName of
          Some ranges \<Rightarrow> ranges
        | None \<Rightarrow> (case table RULE_NAME_ALL of Some ranges \<Rightarrow> ranges | None \<Rightarrow> []))"

section \<open>Autofix gate: \<open>addFixData\<close> and \<open>isFixApplied\<close>\<close>

definition addFixData ::
  "(string \<rightharpoonup> fixerData list) \<Rightarrow> string \<Rightarrow> Range option \<Rightarrow> bool \<Rightarrow> (string \<rightharpoonup> fixerData list)" where
  "addFixData fixers ruleName rng fx =
     fixers(ruleName \<mapsto>
       (case fixers ruleName of None \<Rightarrow> [] | Some ruleFixers \<Rightarrow> ruleFixers)
         @ [\<lparr>fd_range = rng, fixed = fx\<rparr>])"

text \<open>\<open>config.rules?.[ruleName][1]?.disableFix\<close>: an absent \<open>rules\<close> gives
  \<open>undefined\<close> (falsy); a present \<open>rules\<close> with no entry for the rule reads
  \<open>[1]\<close> of \<open>undefined\<close>, a TypeError; absent secondary options give
  \<open>undefined\<close>.\<close>

definition rule_disableFix :: "config \<Rightarrow> string \<Rightarrow> error + bool" where
  "rule_disableFix cfg ruleName =
     (case rules cfg of
        None \<Rightarrow> Inr False
      | Some rs \<Rightarrow>
          (case rs ruleName of
             None \<Rightarrow> Inl (TypeError ''Cannot read properties of undefined (reading '1')'')
           | Some None \<Rightarrow> Inr False
           | Some (Some secondary) \<Rightarrow> Inr (disableFix secondary)))"

text \<open>\<open>Boolean(config.fix && !...)\<close>: the right operand is evaluated only when
  \<open>config.fix\<close> is truthy.\<close>

definition shouldFix :: "config \<Rightarrow> string \<Rightarrow> error + bool" where
  "shouldFix cfg ruleName =
     (if cfg_fix cfg
      then (case rule_disableFix cfg ruleName of Inl e \<Rightarrow> Inl e | Inr b \<Rightarrow> Inr (\<not> b))
      else Inr False)"

text \<open>\<open>const { config = {} } = stylelint\<close>: an absent configuration is the empty
  object.\<close>

definition empty_config :: config where
  "empty_config = \<lparr>defaultSeverity = None, ignoreDisables = False, cfg_fix = False, rules = None\<rparr>"

definition config_of :: "stylelint \<Rightarrow> config" where
  "config_of st = (case config st of None \<Rightarrow> empty_config | Some c \<Rightarrow> c)"

text \<open>\<open>isFixApplied\<close> returns what it threw or returned, the \<open>stylelint\<close> object as
  it left it, and the document as the callback left it.\<close>

definition isFixApplied ::
  "('d \<Rightarrow> Range option \<times> 'd) option \<Rightarrow> int \<Rightarrow> stylelint \<Rightarrow> string \<Rightarrow> 'd
     \<Rightarrow> (error + bool) \<times> stylelint \<times> 'd" where
  "isFixApplied fix ln st ruleName doc =
     (case fix of
        None \<Rightarrow>
          (Inr False, st\<lparr>fixersData := addFixData (fixersData st) ruleName None False\<rparr>, doc)
      | Some f \<Rightarrow>
          (case shouldFix (config_of st) ruleName of
             Inl e \<Rightarrow> (Inl e, st, doc)
           | Inr should \<Rightarrow>
               (let mayFix = should \<and>
                      (ignoreDisables (config_of st) \<or> \<not> isDisabled ruleName ln (disabledRanges st))
                in if mayFix
                   then (case f doc of (rng, doc') \<Rightarrow>
                           (Inr True,
                            st\<lparr>fixersData := addFixData (fixersData st) ruleName rng True\<rparr>,
                            doc'))
                   else (Inr False,
                         st\<lparr>fixersData := addFixData (fixersData st) ruleName None False\<rparr>,
                         doc))))"

section \<open>Message formatter: \<open>printfLike\<close> and \<open>buildWarningMessage\<close>\<close>

text \<open>\<open>String(arg)\<close>: a string is itself, an integer its decimal numeral.\<close>

definition digit_char :: "nat \<Rightarrow> char" where
  "digit_char n = ''0123456789'' ! (n mod 10)"

fun digits :: "nat \<Rightarrow> string" where
  "digits n = (if n < 10 then [digit_char n] else digits (n div 10) @ [digit_char n])"

declare digits.simps [simp del]

fun String_of :: "arg \<Rightarrow> string" where
  "String_of (Str s) = s"
| "String_of (Num n) = (if n < 0 then CHR ''-'' # digits (nat (- n)) else digits (nat n))"

text \<open>The first match of the regular expression \<open>/%[ds]/\<close>: the text before it, the
  match, and the text after it.\<close>

fun placeholder_search :: "string \<Rightarrow> string \<Rightarrow> (string \<times> string \<times> string) option" where
  "placeholder_search pre (c1 # c2 # rest) =
     (if c1 = CHR ''%'' \<and> (c2 = CHR ''d'' \<or> c2 = CHR ''s'')
      then Some (pre, [c1, c2], rest)
      else placeholder_search (pre @ [c1]) (c2 # rest))"
| "placeholder_search pre [c] = None"
| "placeholder_search pre [] = None"

text \<open>\<open>String.prototype.replace\<close> with a string as replacement expands the
  patterns \<open>$$\<close>, \<open>$&\<close>, \<open>$`\<close> and \<open>$'\<close> in it (ECMAScript's GetSubstitution);
  the expression has no capture group, so \<open>$1\<close>, \<open>$<name>\<close> and any other
  \<open>$\<close> stay as they are.\<close>

fun GetSubstitution :: "string \<Rightarrow> string \<Rightarrow> string \<Rightarrow> string \<Rightarrow> string" where
  "GetSubstitution matched pre post (c1 # c2 # rest) =
     (if c1 = CHR ''$'' \<and> c2 = CHR ''$'' then CHR ''$'' # GetSubstitution matched pre post rest
      else if c1 = CHR ''$'' \<and> c2 = CHR ''&'' then matched @ GetSubstitution matched pre post rest
      else if c1 = CHR ''$'' \<and> c2 = CHR 0x60 then pre @ GetSubstitution matched pre post rest
      else if c1 = CHR ''$'' \<and> c2 = CHR 0x27 then post @ GetSubstitution matched pre post rest
      else c1 # GetSubstitution matched pre post (c2 # rest))"
| "GetSubstitution matched pre post [c] = [c]"
| "GetSubstitution matched pre post [] = []"

text \<open>\<open>result.replace(/%[ds]/, String(arg))\<close>: the expression is not global, so
  only the first match is replaced; without a match the string is unchanged.\<close>

definition replace_placeholder :: "string \<Rightarrow> string \<Rightarrow> string" where
  "replace_placeholder str replacement =
     (case placeholder_search [] str of
        None \<Rightarrow> str
      | Some (pre, matched, post) \<Rightarrow>
          pre @ GetSubstitution matched pre post replacement @ post)"

definition printfLike :: "string \<Rightarrow> arg list \<Rightarrow> string" where
  "printfLike format args =
     foldl (\<lambda>result arg. replace_placeholder result (String_of arg)) format args"

fun buildWarningMessage :: "message_spec \<Rightarrow> arg list \<Rightarrow> string" where
  "buildWarningMessage (MessageString message) messageArgs = printfLike message messageArgs"
| "buildWarningMessage (MessageFn message) messageArgs = message messageArgs"

text \<open>The substitution as the specification words it, for comparison with
  \<open>printfLike\<close>: one pass over the template from left to right, each placeholder
  \<open>%s\<close> or \<open>%d\<close> taking the string form of the next argument; once the
  arguments are used up the rest of the template stays as it is, and arguments left
  over at the end of the template are dropped.\<close>

fun substitute_positional :: "string \<Rightarrow> string list \<Rightarrow> string" where
  "substitute_positional template [] = template"
| "substitute_positional (c1 # c2 # rest) (a # as) =
     (if c1 = CHR ''%'' \<and> (c2 = CHR ''d'' \<or> c2 = CHR ''s'')
      then a @ substitute_positional rest as
      else c1 # substitute_positional (c2 # rest) (a # as))"
| "substitute_positional [c] (a # as) = [c]"
| "substitute_positional [] (a # as) = []"

text \<open>The conditions under which the two agree. \<open>starts_placeholder\<close>: the string
  begins with \<open>%d\<close> or \<open>%s\<close>. \<open>no_percent_before_placeholder\<close>: no percent
  sign of the template stands directly before a placeholder (as in \<open>%%s\<close>).
  \<open>plain_arg\<close>: the string form of the argument has no percent and no dollar sign.\<close>

definition starts_placeholder :: "string \<Rightarrow> bool" where
  "starts_placeholder s =
     (case s of
        c1 # c2 # rest \<Rightarrow> c1 = CHR ''%'' \<and> (c2 = CHR ''d'' \<or> c2 = CHR ''s'')
      | _ \<Rightarrow> False)"

fun no_percent_before_placeholder :: "string \<Rightarrow> bool" where
  "no_percent_before_placeholder [] = True"
| "no_percent_before_placeholder (c # rest) =
     (\<not> (c = CHR ''%'' \<and> starts_placeholder rest) \<and> no_percent_before_placeholder rest)"

definition plain_arg :: "arg \<Rightarrow> bool" where
  "plain_arg a \<longleftrightarrow> CHR ''%'' \<notin> set (String_of a) \<and> CHR ''$'' \<notin> set (String_of a)"

text \<open>The replacement of the first placeholder by a string in which nothing is
  expanded, by recursion on the text; \<open>replace_placeholder\<close> is shown to compute it
  for such a string.\<close>

fun replace_first :: "string \<Rightarrow> string \<Rightarrow> string" where
  "replace_first (c1 # c2 # rest) s =
     (if c1 = CHR ''%'' \<and> (c2 = CHR ''d'' \<or> c2 = CHR ''s'')
      then s @ rest
      else c1 # replace_first (c2 # rest) s)"
| "replace_first [c] s = [c]"
| "replace_first [] s = []"

section \<open>The pipeline: \<open>report\<close>\<close>

definition messageArgs_of :: "'d problem \<Rightarrow> arg list" where
  "messageArgs_of problem = (case p_messageArgs problem of None \<Rightarrow> [] | Some args \<Rightarrow> args)"

text \<open>\<open>config: { defaultSeverity = 'error', ignoreDisables } = {}\<close>.\<close>

definition defaultSeverity_of :: "stylelint \<Rightarrow> string" where
  "defaultSeverity_of st =
     (case defaultSeverity (config_of st) of None \<Rightarrow> ''error'' | Some s \<Rightarrow> s)"

text \<open>\<open>severity = ruleSeverities[ruleName]\<close> when the problem has none, then
  \<open>isFn(severity) ? severity(...messageArgs) || defaultSeverity : severity\<close>; the
  empty string is falsy. The result is \<open>None\<close> when neither the problem nor
  \<open>ruleSeverities\<close> has a severity.\<close>

definition ruleSeverity_of :: "'d problem \<Rightarrow> stylelint \<Rightarrow> string option" where
  "ruleSeverity_of problem st =
     (case (case p_severity problem of
              None \<Rightarrow> ruleSeverities st (p_ruleName problem)
            | Some sv \<Rightarrow> Some sv) of
        None \<Rightarrow> None
      | Some (SeverityLiteral s) \<Rightarrow> Some s
      | Some (SeverityFn f) \<Rightarrow>
          (case f (messageArgs_of problem) of
             None \<Rightarrow> Some (defaultSeverity_of st)
           | Some s \<Rightarrow> if s = [] then Some (defaultSeverity_of st) else Some s))"

text \<open>\<open>isFn(fix) && metadata && !metadata.fixable\<close>.\<close>

definition misused_fix :: "'d problem \<Rightarrow> stylelint \<Rightarrow> bool" where
  "misused_fix problem st \<longleftrightarrow>
     p_fix problem \<noteq> None \<and>
     (case ruleMetadata st (p_ruleName problem) of None \<Rightarrow> False | Some m \<Rightarrow> \<not> fixable m)"

definition misused_fix_message :: "string \<Rightarrow> string" where
  "misused_fix_message ruleName =
     ''The \"'' @ ruleName @
     ''\" rule requires \"meta.fixable\" to be truthy if the \"fix\" callback is being passed''"

definition unresolvable_line_message :: "string \<Rightarrow> string" where
  "unresolvable_line_message ruleName =
     ''The \"'' @ ruleName @
     ''\" rule failed to pass either a node or a line number to the `report()` function.''"

text \<open>\<open>line ?? (node?.rangeBy({ index, endIndex }) ?? {}).start?.line\<close>.\<close>

definition startLine_of :: "'d problem \<Rightarrow> int option" where
  "startLine_of problem =
     (case p_line problem of
        Some l \<Rightarrow> Some l
      | None \<Rightarrow>
          (case p_node problem of
             None \<Rightarrow> None
           | Some n \<Rightarrow>
               (case range_start (rangeBy n (p_index problem) (p_endIndex problem)) of
                  None \<Rightarrow> None
                | Some pos \<Rightarrow> Some (line pos))))"

text \<open>The truthiness tests on strings: \<open>if (word)\<close>, \<open>if (customUrl)\<close>.\<close>

definition truthy_string :: "string option \<Rightarrow> string option" where
  "truthy_string s = (case s of None \<Rightarrow> None | Some v \<Rightarrow> if v = [] then None else Some v)"

definition warningProperties_of ::
  "'d problem \<Rightarrow> string option \<Rightarrow> string option \<Rightarrow> warningProperties" where
  "warningProperties_of problem ruleSeverity customUrl =
     \<lparr>wp_severity = ruleSeverity,
      wp_rule = p_ruleName problem,
      wp_node = p_node problem,
      wp_start = p_start problem,
      wp_index = (if p_start problem \<noteq> None then None else p_index problem),
      wp_end = p_end problem,
      wp_endIndex = (if p_end problem \<noteq> None then None else p_endIndex problem),
      wp_word = truthy_string (p_word problem),
      wp_url = truthy_string customUrl\<rparr>"

text \<open>\<open>result.warn(warningMessage, warningProperties)\<close> adds a warning to the
  result's messages.\<close>

definition warn :: "result \<Rightarrow> string \<Rightarrow> warningProperties \<Rightarrow> result" where
  "warn res txt props = res\<lparr>messages := messages res @ [\<lparr>w_text = txt, w_props = props\<rparr>]\<rparr>"

text \<open>\<open>(result.stylelint.disabledWarnings ||= []).push({ rule, line })\<close>.\<close>

definition push_disabledWarning :: "stylelint \<Rightarrow> string \<Rightarrow> int \<Rightarrow> stylelint" where
  "push_disabledWarning st ruleName startLine =
     st\<lparr>disabledWarnings :=
          Some ((case disabledWarnings st of None \<Rightarrow> [] | Some ws \<Rightarrow> ws)
                  @ [\<lparr>dw_rule = ruleName, dw_line = startLine\<rparr>])\<rparr>"

text \<open>The two latches, and the warning built and committed (lines 67 to 107).\<close>

definition emit_warning :: "'d problem \<Rightarrow> result \<Rightarrow> string option \<Rightarrow> result" where
  "emit_warning problem res ruleSeverity =
     (let st = stylelint res;
          ruleName = p_ruleName problem;
          message = (case customMessages st ruleName of
                       None \<Rightarrow> p_message problem
                     | Some m \<Rightarrow> m);
          st' = st\<lparr>stylelintError := stylelintError st \<or> ruleSeverity = Some ''error'',
                   stylelintWarning := stylelintWarning st \<or> ruleSeverity = Some ''warning''\<rparr>
      in warn (res\<lparr>stylelint := st'\<rparr>)
           (buildWarningMessage message (messageArgs_of problem))
           (warningProperties_of problem ruleSeverity (customUrls st ruleName)))"

text \<open>\<open>report\<close> returns the error it threw, if any, the result as it left it, and
  the document as the fix callback left it.\<close>

definition report :: "'d problem \<Rightarrow> result \<Rightarrow> 'd \<Rightarrow> error option \<times> result \<times> 'd" where
  "report problem res doc =
     (let st = stylelint res;
          ruleName = p_ruleName problem;
          ruleSeverity = ruleSeverity_of problem st
      in if quiet st \<and> ruleSeverity \<noteq> Some ''error'' then (None, res, doc)
         else if misused_fix problem st
         then (Some (Error (misused_fix_message ruleName)), res, doc)
         else
           (case startLine_of problem of
              None \<Rightarrow> (Some (Error (unresolvable_line_message ruleName)), res, doc)
            | Some startLine \<Rightarrow>
                if startLine = 0
                then (Some (Error (unresolvable_line_message ruleName)), res, doc)
                else
                  (case isFixApplied (p_fix problem) startLine st ruleName doc of
                     (Inl e, st1, doc1) \<Rightarrow> (Some e, res\<lparr>stylelint := st1\<rparr>, doc1)
                   | (Inr True, st1, doc1) \<Rightarrow> (None, res\<lparr>stylelint := st1\<rparr>, doc1)
                   | (Inr False, st1, doc1) \<Rightarrow>
                       if isDisabled ruleName startLine (disabledRanges st1)
                       then
                         (let st2 = push_disabledWarning st1 ruleName startLine
                          in if \<not> ignoreDisables (config_of st2)
                             then (None, res\<lparr>stylelint := st2\<rparr>, doc1)
                             else (None, emit_warning problem (res\<lparr>stylelint := st2\<rparr>) ruleSeverity, doc1))
                       else (None, emit_warning problem (res\<lparr>stylelint := st1\<rparr>) ruleSeverity, doc1))))"

section \<open>The reference rule: \<open>function-space-after\<close>\<close>

definition function_space_after_ruleName :: string where
  "function_space_after_ruleName = ''function-space-after''"

record rule_messages =
  expected :: string
  rejected :: string

text \<open>\<open>ruleMessages\<close> of \<open>src/utils\<close> is not among the sources: it is a parameter
  \<open>rm\<close> here, taking the rule name and the table of the rule's messages.\<close>

definition function_space_after_messages ::
  "(string \<Rightarrow> rule_messages \<Rightarrow> rule_messages) \<Rightarrow> rule_messages" where
  "function_space_after_messages rm =
     rm function_space_after_ruleName
       \<lparr>expected = ''Expected single space after \")\"'',
        rejected = ''Unexpected whitespace after \")\"''\<rparr>"

text \<open>Modelled from the spec: \<open>isWhitespace\<close> of \<open>src/utils\<close>, which is not among
  the sources. The spec speaks of a whitespace character: a space, a tab, a line feed,
  a carriage return or a form feed; no character (\<open>undefined\<close>) is not whitespace.\<close>

definition isWhitespace :: "char option \<Rightarrow> bool" where
  "isWhitespace c =
     (case c of
        None \<Rightarrow> False
      | Some ch \<Rightarrow> ch \<in> set [CHR '' '', CHR 0x09, CHR 0x0A, CHR 0x0D, CHR 0x0C])"

text \<open>Modelled from the spec: \<open>styleSearch\<close> of \<open>src/utils\<close>, which is not among
  the sources. The spec has the rule inspect every occurrence of the delimiter
  character in the value: the indices of the occurrences, from left to right, are the
  matches the callback receives.\<close>

definition styleSearch :: "string \<Rightarrow> char \<Rightarrow> nat list" where
  "styleSearch source target = filter (\<lambda>i. source ! i = target) [0..<length source]"

text \<open>\<open>source[i]\<close>: \<open>undefined\<close> beyond the end of the string.\<close>

definition char_at :: "string \<Rightarrow> nat \<Rightarrow> char option" where
  "char_at source i = (if i < length source then Some (source ! i) else None)"

text \<open>The object literal \<open>{ message, node, result, ruleName }\<close> handed to
  \<open>report\<close>: these keys and no other.\<close>

definition report_call :: "string \<Rightarrow> node \<Rightarrow> 'd problem" where
  "report_call message nd =
     \<lparr>p_ruleName = function_space_after_ruleName, p_node = Some nd, p_index = None,
      p_endIndex = None, p_line = None, p_start = None, p_end = None, p_word = None,
      p_fix = None, p_message = MessageString message, p_messageArgs = None,
      p_severity = None\<rparr>"

text \<open>\<open>checkClosingParen\<close> returns the problems it hands to \<open>report\<close>, none or
  one.\<close>

definition checkClosingParen ::
  "string \<Rightarrow> rule_messages \<Rightarrow> string \<Rightarrow> nat \<Rightarrow> node \<Rightarrow> 'd problem list" where
  "checkClosingParen expectation msgs source index nd =
     (let nextChar = char_at source (index + 1)
      in if expectation = ''always''
         then
           if nextChar = Some CHR '' '' \<and> \<not> isWhitespace (char_at source (index + 2)) then []
           else if nextChar \<in> set [Some CHR '')'', Some CHR '','', None] then []
           else [report_call (expected msgs) nd]
         else if expectation = ''never''
         then if isWhitespace nextChar then [report_call (rejected msgs) nd] else []
         else [])"

text \<open>The rule on a stylesheet, given as the list of its declarations in the order
  \<open>css.eachDecl\<close> visits them: the problems handed to \<open>report\<close>, in order.\<close>

definition function_space_after ::
  "string \<Rightarrow> (string \<Rightarrow> rule_messages \<Rightarrow> rule_messages) \<Rightarrow> node list \<Rightarrow> 'd problem list" where
  "function_space_after expectation rm css =
     concat (map (\<lambda>decl.
        concat (map (\<lambda>i. checkClosingParen expectation (function_space_after_messages rm)
                             (decl_value decl) i decl)
                    (styleSearch (decl_value decl) CHR '')'')))
        css)"

text \<open>The violation of mode \<open>always\<close> as the specification words it: the character
  after the delimiter at \<open>i\<close> is not a single space that is itself not followed by
  further whitespace, not another delimiter, not a comma, and not the end of the
  value.\<close>

definition always_violation :: "string \<Rightarrow> nat \<Rightarrow> bool" where
  "always_violation v i \<longleftrightarrow>
     \<not> (char_at v (i + 1) = Some CHR '' '' \<and> \<not> isWhitespace (char_at v (i + 2))) \<and>
     char_at v (i + 1) \<noteq> Some CHR '')'' \<and>
     char_at v (i + 1) \<noteq> Some CHR '','' \<and>
     char_at v (i + 1) \<noteq> None"

section \<open>Concrete inputs\<close>

text \<open>A configuration with fixing enabled and an entry for the rule, a result with
  nothing recorded yet, and a problem at line 5 with a fix callback that appends to the
  document (a string) and returns no range.\<close>

definition example_config :: config where
  "example_config =
     \<lparr>defaultSeverity = None, ignoreDisables = False, cfg_fix = True,
      rules = Some [''color-no-hex'' \<mapsto> None]\<rparr>"

definition example_stylelint :: stylelint where
  "example_stylelint =
     \<lparr>disabledRanges = Map.empty, quiet = False,
      ruleSeverities = [''color-no-hex'' \<mapsto> SeverityLiteral ''warning''],
      config = Some example_config, customMessages = Map.empty, customUrls = Map.empty,
      ruleMetadata = [''color-no-hex'' \<mapsto> \<lparr>fixable = True\<rparr>],
      disabledWarnings = None, fixersData = Map.empty,
      stylelintError = False, stylelintWarning = False\<rparr>"

definition example_result :: result where
  "example_result = \<lparr>stylelint = example_stylelint, messages = []\<rparr>"

definition example_fix :: "string \<Rightarrow> Range option \<times> string" where
  "example_fix doc = (None, doc @ ''/*fixed*/'')"

definition example_problem :: "string problem" where
  "example_problem =
     \<lparr>p_ruleName = ''color-no-hex'', p_node = None, p_index = None, p_endIndex = None,
      p_line = Some 5, p_start = None, p_end = None, p_word = None,
      p_fix = Some example_fix, p_message = MessageString ''Unexpected hex color %s'',
      p_messageArgs = Some [Str ''#fff''], p_severity = None\<rparr>"

text \<open>A suppression of every rule on lines 3 to 7.\<close>

definition example_ranges :: "string \<rightharpoonup> disabledRange list" where
  "example_ranges = [''all'' \<mapsto> [\<lparr>dr_start = 3, dr_end = Some 7, dr_rules = None\<rparr>]]"

text \<open>A declaration node for the reference rule; its \<open>rangeBy\<close> gives the node's
  own position whatever the offsets.\<close>

definition example_decl :: "string \<Rightarrow> node" where
  "example_decl v =
     \<lparr>decl_value = v,
      rangeBy = (\<lambda>i e. \<lparr>range_start = Some \<lparr>line = 2, column = 3\<rparr>, range_end = None\<rparr>)\<rparr>"

section \<open>Claims about the suppression index\<close>

text \<open>
  C4. For every rule identifier, line and table of suppression ranges, \<open>isDisabled\<close>
  is true exactly when some range of the sequence stored under the rule's own key, or
  under the blanket key when the rule has no key, starts at or before the line, has no
  end or ends at or after the line, and has no rule list or one that contains the rule.
\<close>

theorem isDisabled_iff:
  "isDisabled ruleName ln table \<longleftrightarrow>
     (\<exists>r \<in> set (case table ruleName of
                   Some ranges \<Rightarrow> ranges
                 | None \<Rightarrow> (case table RULE_NAME_ALL of Some ranges \<Rightarrow> ranges | None \<Rightarrow> [])).
        dr_start r \<le> ln \<and>
        (dr_end r = None \<or> (\<exists>e. dr_end r = Some e \<and> e \<ge> ln)) \<and>
        (dr_rules r = None \<or> (\<exists>rs. dr_rules r = Some rs \<and> ruleName \<in> set rs)))"
proof -
  have loop: "isDisabled_loop ruleName ln xs \<longleftrightarrow> (\<exists>r \<in> set xs. range_matches ruleName ln r)" for xs
    by (induction xs) auto
  have m: "range_matches ruleName ln r \<longleftrightarrow>
      dr_start r \<le> ln \<and>
      (dr_end r = None \<or> (\<exists>e. dr_end r = Some e \<and> e \<ge> ln)) \<and>
      (dr_rules r = None \<or> (\<exists>rs. dr_rules r = Some rs \<and> ruleName \<in> set rs))" for r
    by (auto simp: range_matches_def split: option.splits)
  show ?thesis
    unfolding isDisabled_def loop by (simp add: m)
qed

theorem isDisabled_iff_witness:
  "isDisabled ''color-no-hex'' 5
     [''all'' \<mapsto> [\<lparr>dr_start = 3, dr_end = Some 7, dr_rules = Some [''color-no-hex'']\<rparr>]]
   \<and> \<not> isDisabled ''color-no-hex'' 5
     [''color-no-hex'' \<mapsto> [\<lparr>dr_start = 6, dr_end = None, dr_rules = None\<rparr>],
      ''all'' \<mapsto> [\<lparr>dr_start = 1, dr_end = None, dr_rules = None\<rparr>]]"
  using isDisabled_iff [of "''color-no-hex''" 5
      "[''all'' \<mapsto> [\<lparr>dr_start = 3, dr_end = Some 7, dr_rules = Some [''color-no-hex'']\<rparr>]]"]
    isDisabled_iff [of "''color-no-hex''" 5
      "[''color-no-hex'' \<mapsto> [\<lparr>dr_start = 6, dr_end = None, dr_rules = None\<rparr>],
        ''all'' \<mapsto> [\<lparr>dr_start = 1, dr_end = None, dr_rules = None\<rparr>]]"]
  by (simp add: RULE_NAME_ALL_def)

section \<open>Stages of the pipeline, one lemma each\<close>

lemmas example_defs =
  example_problem_def example_result_def example_stylelint_def example_config_def
  example_fix_def example_ranges_def

lemmas pipeline_defs =
  ruleSeverity_of_def misused_fix_def startLine_of_def config_of_def defaultSeverity_of_def
  messageArgs_of_def shouldFix_def rule_disableFix_def

lemma report_quiet_discard:
  "quiet (stylelint res) \<Longrightarrow> ruleSeverity_of problem (stylelint res) \<noteq> Some ''error'' \<Longrightarrow>
   report problem res doc = (None, res, doc)"
  by (simp add: report_def Let_def)

lemma report_misused:
  "\<not> (quiet (stylelint res) \<and> ruleSeverity_of problem (stylelint res) \<noteq> Some ''error'') \<Longrightarrow>
   misused_fix problem (stylelint res) \<Longrightarrow>
   report problem res doc = (Some (Error (misused_fix_message (p_ruleName problem))), res, doc)"
  by (simp add: report_def Let_def)

lemma report_unresolvable:
  "\<not> (quiet (stylelint res) \<and> ruleSeverity_of problem (stylelint res) \<noteq> Some ''error'') \<Longrightarrow>
   \<not> misused_fix problem (stylelint res) \<Longrightarrow>
   startLine_of problem = None \<or> startLine_of problem = Some 0 \<Longrightarrow>
   report problem res doc = (Some (Error (unresolvable_line_message (p_ruleName problem))), res, doc)"
  by (auto simp add: report_def Let_def)

lemma report_gate:
  "\<not> (quiet (stylelint res) \<and> ruleSeverity_of problem (stylelint res) \<noteq> Some ''error'') \<Longrightarrow>
   \<not> misused_fix problem (stylelint res) \<Longrightarrow>
   startLine_of problem = Some l \<Longrightarrow> l \<noteq> 0 \<Longrightarrow>
   report problem res doc =
     (case isFixApplied (p_fix problem) l (stylelint res) (p_ruleName problem) doc of
        (Inl e, st1, doc1) \<Rightarrow> (Some e, res\<lparr>stylelint := st1\<rparr>, doc1)
      | (Inr True, st1, doc1) \<Rightarrow> (None, res\<lparr>stylelint := st1\<rparr>, doc1)
      | (Inr False, st1, doc1) \<Rightarrow>
          if isDisabled (p_ruleName problem) l (disabledRanges st1)
          then if \<not> ignoreDisables (config_of st1)
               then (None, res\<lparr>stylelint := push_disabledWarning st1 (p_ruleName problem) l\<rparr>, doc1)
               else (None, emit_warning problem
                       (res\<lparr>stylelint := push_disabledWarning st1 (p_ruleName problem) l\<rparr>)
                       (ruleSeverity_of problem (stylelint res)), doc1)
          else (None, emit_warning problem (res\<lparr>stylelint := st1\<rparr>)
                  (ruleSeverity_of problem (stylelint res)), doc1))"
  by (auto simp add: report_def Let_def config_of_def push_disabledWarning_def split: prod.splits sum.splits bool.splits)

lemma isFixApplied_no_fix:
  "isFixApplied None l st r doc =
     (Inr False, st\<lparr>fixersData := addFixData (fixersData st) r None False\<rparr>, doc)"
  by (simp add: isFixApplied_def)

lemma isFixApplied_TypeError:
  "shouldFix (config_of st) r = Inl e \<Longrightarrow> isFixApplied (Some f) l st r doc = (Inl e, st, doc)"
  by (simp add: isFixApplied_def)

lemma isFixApplied_mayFix:
  "shouldFix (config_of st) r = Inr True \<Longrightarrow>
   ignoreDisables (config_of st) \<or> \<not> isDisabled r l (disabledRanges st) \<Longrightarrow>
   isFixApplied (Some f) l st r doc =
     (Inr True, st\<lparr>fixersData := addFixData (fixersData st) r (fst (f doc)) True\<rparr>, snd (f doc))"
  by (auto simp add: isFixApplied_def split: prod.splits)

lemma isFixApplied_not_mayFix:
  "shouldFix (config_of st) r = Inr b \<Longrightarrow>
   \<not> (b \<and> (ignoreDisables (config_of st) \<or> \<not> isDisabled r l (disabledRanges st))) \<Longrightarrow>
   isFixApplied (Some f) l st r doc =
     (Inr False, st\<lparr>fixersData := addFixData (fixersData st) r None False\<rparr>, doc)"
  by (auto simp add: isFixApplied_def split: prod.splits)

lemma isFixApplied_False_state:
  assumes "isFixApplied cb l st r doc = (Inr False, st1, doc1)"
  shows "st1 = st\<lparr>fixersData := addFixData (fixersData st) r None False\<rparr> \<and> doc1 = doc"
proof (cases cb)
  case None
  with assms show ?thesis by (simp add: isFixApplied_def)
next
  case (Some f)
  show ?thesis
  proof (cases "shouldFix (config_of st) r")
    case (Inl e)
    with Some assms show ?thesis by (simp add: isFixApplied_def)
  next
    case (Inr b)
    with Some assms show ?thesis
      by (cases "f doc") (simp add: isFixApplied_def split: if_splits)
  qed
qed

lemma report_not_fixed:
  assumes "\<not> (quiet (stylelint res) \<and> ruleSeverity_of problem (stylelint res) \<noteq> Some ''error'')"
    and "\<not> misused_fix problem (stylelint res)"
    and "startLine_of problem = Some l" and "l \<noteq> 0"
    and "isFixApplied (p_fix problem) l (stylelint res) (p_ruleName problem) doc = (Inr False, st1, doc1)"
  shows "report problem res doc =
     (None,
      (if isDisabled (p_ruleName problem) l (disabledRanges (stylelint res))
       then if ignoreDisables (config_of (stylelint res))
            then emit_warning problem
                   (res\<lparr>stylelint := push_disabledWarning st1 (p_ruleName problem) l\<rparr>)
                   (ruleSeverity_of problem (stylelint res))
            else res\<lparr>stylelint := push_disabledWarning st1 (p_ruleName problem) l\<rparr>
       else emit_warning problem (res\<lparr>stylelint := st1\<rparr>) (ruleSeverity_of problem (stylelint res))),
      doc)"
proof -
  from isFixApplied_False_state [OF assms(5)]
  have st1: "st1 = (stylelint res)\<lparr>fixersData :=
      addFixData (fixersData (stylelint res)) (p_ruleName problem) None False\<rparr>" and "doc1 = doc"
    by simp_all
  then show ?thesis
    unfolding report_gate [OF assms(1-4)] assms(5)
    by (simp add: config_of_def)
qed

lemma report_fixed:
  assumes "\<not> (quiet (stylelint res) \<and> ruleSeverity_of problem (stylelint res) \<noteq> Some ''error'')"
    and "\<not> misused_fix problem (stylelint res)"
    and "startLine_of problem = Some l" and "l \<noteq> 0"
    and "p_fix problem = Some f"
    and "shouldFix (config_of (stylelint res)) (p_ruleName problem) = Inr True"
    and "ignoreDisables (config_of (stylelint res)) \<or>
         \<not> isDisabled (p_ruleName problem) l (disabledRanges (stylelint res))"
  shows "report problem res doc =
     (None,
      res\<lparr>stylelint := (stylelint res)\<lparr>fixersData :=
        addFixData (fixersData (stylelint res)) (p_ruleName problem) (fst (f doc)) True\<rparr>\<rparr>,
      snd (f doc))"
  unfolding report_gate [OF assms(1-4)] assms(5) isFixApplied_mayFix [OF assms(6,7)]
  by simp

lemma messages_emit_warning:
  "messages (emit_warning problem res sev) =
     messages res @
       [\<lparr>w_text = buildWarningMessage
                   (case customMessages (stylelint res) (p_ruleName problem) of
                      None \<Rightarrow> p_message problem
                    | Some m \<Rightarrow> m)
                   (messageArgs_of problem),
         w_props = warningProperties_of problem sev (customUrls (stylelint res) (p_ruleName problem))\<rparr>]"
  by (simp add: emit_warning_def warn_def Let_def)

lemma disabledWarnings_emit_warning:
  "disabledWarnings (stylelint (emit_warning problem res sev)) = disabledWarnings (stylelint res)"
  by (simp add: emit_warning_def warn_def Let_def)

subsection \<open>The quiet flag is read by the quiet filter only\<close>

lemma config_of_quiet [simp]: "config_of (st\<lparr>quiet := q\<rparr>) = config_of st"
  by (simp add: config_of_def)

lemma defaultSeverity_of_quiet [simp]:
  "defaultSeverity_of (st\<lparr>quiet := q\<rparr>) = defaultSeverity_of st"
  by (simp add: defaultSeverity_of_def)

lemma ruleSeverity_of_quiet [simp]:
  "ruleSeverity_of problem (st\<lparr>quiet := q\<rparr>) = ruleSeverity_of problem st"
  by (simp add: ruleSeverity_of_def split: option.splits severity_spec.splits)

lemma misused_fix_quiet [simp]:
  "misused_fix problem (st\<lparr>quiet := q\<rparr>) = misused_fix problem st"
  by (simp add: misused_fix_def)

lemma isFixApplied_quiet:
  "isFixApplied cb l (st\<lparr>quiet := q\<rparr>) r doc =
     (case isFixApplied cb l st r doc of (x, st1, doc1) \<Rightarrow> (x, st1\<lparr>quiet := q\<rparr>, doc1))"
proof (cases cb)
  case None
  then show ?thesis by (simp add: isFixApplied_def)
next
  case (Some f)
  show ?thesis
  proof (cases "shouldFix (config_of st) r")
    case (Inl e)
    with Some show ?thesis by (simp add: isFixApplied_def)
  next
    case (Inr b)
    with Some show ?thesis
      by (cases "f doc") (simp add: isFixApplied_def)
  qed
qed

lemma emit_warning_quiet:
  "emit_warning problem (res\<lparr>stylelint := st\<lparr>quiet := q\<rparr>\<rparr>) sev =
     (emit_warning problem (res\<lparr>stylelint := st\<rparr>) sev)
       \<lparr>stylelint := (stylelint (emit_warning problem (res\<lparr>stylelint := st\<rparr>) sev))\<lparr>quiet := q\<rparr>\<rparr>"
  by (simp add: emit_warning_def warn_def Let_def)

lemma push_disabledWarning_quiet:
  "push_disabledWarning (st\<lparr>quiet := q\<rparr>) r l = (push_disabledWarning st r l)\<lparr>quiet := q\<rparr>"
  by (simp add: push_disabledWarning_def)

lemma report_quiet_frame:
  assumes "ruleSeverity_of problem (stylelint res) = Some ''error''"
  shows "report problem (res\<lparr>stylelint := (stylelint res)\<lparr>quiet := q\<rparr>\<rparr>) doc =
     (case report problem res doc of
        (e, res1, doc1) \<Rightarrow> (e, res1\<lparr>stylelint := (stylelint res1)\<lparr>quiet := q\<rparr>\<rparr>, doc1))"
proof -
  let ?st = "stylelint res"
  let ?resq = "res\<lparr>stylelint := ?st\<lparr>quiet := q\<rparr>\<rparr>"
  have nq: "\<not> (quiet (stylelint ?resq) \<and> ruleSeverity_of problem (stylelint ?resq) \<noteq> Some ''error'')"
       "\<not> (quiet ?st \<and> ruleSeverity_of problem ?st \<noteq> Some ''error'')"
    using assms by simp_all
  consider (m) "misused_fix problem ?st"
    | (u) "\<not> misused_fix problem ?st" "startLine_of problem = None \<or> startLine_of problem = Some 0"
    | (g) l where "\<not> misused_fix problem ?st" "startLine_of problem = Some l" "l \<noteq> 0"
    by (cases "startLine_of problem") auto
  then show ?thesis
  proof cases
    case m
    then have "misused_fix problem (stylelint ?resq)" by simp
    from report_misused [OF nq(1) this] report_misused [OF nq(2) m]
    show ?thesis by simp
  next
    case u
    then have "\<not> misused_fix problem (stylelint ?resq)" by simp
    from report_unresolvable [OF nq(1) this u(2)] report_unresolvable [OF nq(2) u(1) u(2)]
    show ?thesis by simp
  next
    case g
    then have nm: "\<not> misused_fix problem (stylelint ?resq)" by simp
    obtain x st1 doc1 where
      fa: "isFixApplied (p_fix problem) l ?st (p_ruleName problem) doc = (x, st1, doc1)"
      by (cases "isFixApplied (p_fix problem) l ?st (p_ruleName problem) doc") auto
    then have faq: "isFixApplied (p_fix problem) l (stylelint ?resq) (p_ruleName problem) doc
        = (x, st1\<lparr>quiet := q\<rparr>, doc1)"
      by (simp add: isFixApplied_quiet)
    show ?thesis
      unfolding report_gate [OF nq(1) nm g(2) g(3)] report_gate [OF nq(2) g(1) g(2) g(3)] fa faq
      by (cases x; simp add: emit_warning_quiet push_disabledWarning_quiet split: bool.splits)
  qed
qed

section \<open>Claims about the errors\<close>

text \<open>
  C1, as the code has it. A problem that carries a fix callback for a rule whose
  metadata is present and does not declare it fixable makes \<open>report\<close> throw the error
  that names the rule, with the result and the document untouched, so that no warning
  is recorded; except that the quiet filter runs first: in quiet mode a problem whose
  severity is not \<open>error\<close> is dropped silently, again with nothing recorded.
\<close>

theorem misused_fix_raised:
  assumes "p_fix problem = Some f"
    and "ruleMetadata (stylelint res) (p_ruleName problem) = Some m"
    and "\<not> fixable m"
  shows "report problem res doc =
     (if quiet (stylelint res) \<and> ruleSeverity_of problem (stylelint res) \<noteq> Some ''error''
      then None
      else Some (Error (misused_fix_message (p_ruleName problem))), res, doc)"
proof -
  from assms have "misused_fix problem (stylelint res)"
    by (simp add: misused_fix_def)
  then show ?thesis
    by (simp add: report_quiet_discard report_misused)
qed

theorem misused_fix_raised_witness:
  "report example_problem
     (example_result\<lparr>stylelint :=
        example_stylelint\<lparr>ruleMetadata := [''color-no-hex'' \<mapsto> \<lparr>fixable = False\<rparr>]\<rparr>\<rparr>) ''a{}''
   = (Some (Error (misused_fix_message ''color-no-hex'')),
      example_result\<lparr>stylelint :=
        example_stylelint\<lparr>ruleMetadata := [''color-no-hex'' \<mapsto> \<lparr>fixable = False\<rparr>]\<rparr>\<rparr>, ''a{}'')"
  using misused_fix_raised [of example_problem example_fix
      "example_result\<lparr>stylelint :=
        example_stylelint\<lparr>ruleMetadata := [''color-no-hex'' \<mapsto> \<lparr>fixable = False\<rparr>]\<rparr>\<rparr>"
      "\<lparr>fixable = False\<rparr>" "''a{}''"]
  by (simp add: example_defs)

text \<open>In quiet mode, with the severity \<open>warning\<close>, the misuse raises nothing; nor does
  a fix callback for a rule that has no metadata at all.\<close>

theorem misused_fix_raised_counterexample:
  "p_fix example_problem = Some example_fix
   \<and> ruleMetadata (example_stylelint\<lparr>quiet := True,
          ruleMetadata := [''color-no-hex'' \<mapsto> \<lparr>fixable = False\<rparr>]\<rparr>) (p_ruleName example_problem)
       = Some \<lparr>fixable = False\<rparr>
   \<and> report example_problem
        (example_result\<lparr>stylelint := example_stylelint\<lparr>quiet := True,
          ruleMetadata := [''color-no-hex'' \<mapsto> \<lparr>fixable = False\<rparr>]\<rparr>\<rparr>) ''a{}''
       = (None,
          example_result\<lparr>stylelint := example_stylelint\<lparr>quiet := True,
            ruleMetadata := [''color-no-hex'' \<mapsto> \<lparr>fixable = False\<rparr>]\<rparr>\<rparr>, ''a{}'')
   \<and> ruleMetadata (example_stylelint\<lparr>ruleMetadata := Map.empty\<rparr>) (p_ruleName example_problem)
       = None
   \<and> report example_problem
        (example_result\<lparr>stylelint := example_stylelint\<lparr>ruleMetadata := Map.empty\<rparr>\<rparr>) ''a{}''
       = (None,
          example_result\<lparr>stylelint := example_stylelint\<lparr>ruleMetadata := Map.empty,
            fixersData := [''color-no-hex'' \<mapsto> [\<lparr>fd_range = None, fixed = True\<rparr>]]\<rparr>\<rparr>,
          ''a{}/*fixed*/'')"
  by (simp add: report_def Let_def isFixApplied_def isDisabled_def addFixData_def
        example_defs pipeline_defs)

text \<open>
  C2, as the code has it. A problem with neither an explicit line nor a node whose
  range has a start makes \<open>report\<close> throw the error that names the rule, with the
  result and the document untouched, provided the two earlier checks let it through:
  the quiet filter does not drop it, and the fix callback is not misused.
\<close>

theorem line_error_raised:
  assumes "p_line problem = None"
    and "p_node problem = None \<or>
         (\<exists>n. p_node problem = Some n \<and>
              range_start (rangeBy n (p_index problem) (p_endIndex problem)) = None)"
    and "\<not> (quiet (stylelint res) \<and> ruleSeverity_of problem (stylelint res) \<noteq> Some ''error'')"
    and "\<not> misused_fix problem (stylelint res)"
  shows "report problem res doc =
     (Some (Error (unresolvable_line_message (p_ruleName problem))), res, doc)"
proof -
  from assms(1,2) have "startLine_of problem = None"
    by (auto simp add: startLine_of_def)
  with assms(3,4) show ?thesis
    by (simp add: report_unresolvable)
qed

theorem line_error_raised_witness:
  "report (example_problem\<lparr>p_line := None\<rparr>) example_result ''a{}''
   = (Some (Error (unresolvable_line_message ''color-no-hex'')), example_result, ''a{}'')"
  using line_error_raised [of "example_problem\<lparr>p_line := None\<rparr>" example_result "''a{}''"]
  by (simp add: example_defs pipeline_defs)

text \<open>Without a line: dropped silently in quiet mode; and the misuse of the fix
  callback is the error thrown when both apply.\<close>

theorem line_error_raised_counterexample:
  "p_line (example_problem\<lparr>p_line := None\<rparr>) = None
   \<and> p_node (example_problem\<lparr>p_line := None\<rparr>) = None
   \<and> report (example_problem\<lparr>p_line := None\<rparr>)
        (example_result\<lparr>stylelint := example_stylelint\<lparr>quiet := True\<rparr>\<rparr>) ''a{}''
       = (None, example_result\<lparr>stylelint := example_stylelint\<lparr>quiet := True\<rparr>\<rparr>, ''a{}'')
   \<and> report (example_problem\<lparr>p_line := None\<rparr>)
        (example_result\<lparr>stylelint :=
           example_stylelint\<lparr>ruleMetadata := [''color-no-hex'' \<mapsto> \<lparr>fixable = False\<rparr>]\<rparr>\<rparr>) ''a{}''
       = (Some (Error (misused_fix_message ''color-no-hex'')),
          example_result\<lparr>stylelint :=
           example_stylelint\<lparr>ruleMetadata := [''color-no-hex'' \<mapsto> \<lparr>fixable = False\<rparr>]\<rparr>\<rparr>, ''a{}'')
   \<and> misused_fix_message ''color-no-hex'' \<noteq> unresolvable_line_message ''color-no-hex''"
  by (simp add: report_def Let_def example_defs pipeline_defs
        misused_fix_message_def unresolvable_line_message_def)

section \<open>Claims about quiet mode\<close>

text \<open>
  C6. In quiet mode a problem whose resolved severity is not \<open>error\<close> is dropped:
  \<open>report\<close> returns without an error and leaves the result and the document as they
  were. A problem whose resolved severity is \<open>error\<close> is processed in quiet mode as
  it is without it: same error or return, same document, and the same result up to the
  quiet flag itself.
\<close>

theorem quiet_mode:
  "(ruleSeverity_of problem (stylelint res) \<noteq> Some ''error'' \<longrightarrow>
      report problem (res\<lparr>stylelint := (stylelint res)\<lparr>quiet := True\<rparr>\<rparr>) doc =
        (None, res\<lparr>stylelint := (stylelint res)\<lparr>quiet := True\<rparr>\<rparr>, doc))
   \<and> (ruleSeverity_of problem (stylelint res) = Some ''error'' \<longrightarrow>
      report problem (res\<lparr>stylelint := (stylelint res)\<lparr>quiet := True\<rparr>\<rparr>) doc =
        (case report problem (res\<lparr>stylelint := (stylelint res)\<lparr>quiet := False\<rparr>\<rparr>) doc of
           (e, res1, doc1) \<Rightarrow> (e, res1\<lparr>stylelint := (stylelint res1)\<lparr>quiet := True\<rparr>\<rparr>, doc1)))"
proof (intro conjI impI)
  assume "ruleSeverity_of problem (stylelint res) \<noteq> Some ''error''"
  then show "report problem (res\<lparr>stylelint := (stylelint res)\<lparr>quiet := True\<rparr>\<rparr>) doc =
        (None, res\<lparr>stylelint := (stylelint res)\<lparr>quiet := True\<rparr>\<rparr>, doc)"
    by (simp add: report_quiet_discard)
next
  assume e: "ruleSeverity_of problem (stylelint res) = Some ''error''"
  then have "ruleSeverity_of problem (stylelint (res\<lparr>stylelint := (stylelint res)\<lparr>quiet := False\<rparr>\<rparr>))
      = Some ''error''"
    by simp
  from report_quiet_frame [OF this, of True doc]
  show "report problem (res\<lparr>stylelint := (stylelint res)\<lparr>quiet := True\<rparr>\<rparr>) doc =
        (case report problem (res\<lparr>stylelint := (stylelint res)\<lparr>quiet := False\<rparr>\<rparr>) doc of
           (e, res1, doc1) \<Rightarrow> (e, res1\<lparr>stylelint := (stylelint res1)\<lparr>quiet := True\<rparr>\<rparr>, doc1))"
    by simp
qed

theorem quiet_mode_witness:
  "report example_problem
     (example_result\<lparr>stylelint := (stylelint example_result)\<lparr>quiet := True\<rparr>\<rparr>) ''a{}''
   = (None, example_result\<lparr>stylelint := (stylelint example_result)\<lparr>quiet := True\<rparr>\<rparr>, ''a{}'')
   \<and> report (example_problem\<lparr>p_severity := Some (SeverityLiteral ''error'')\<rparr>)
       (example_result\<lparr>stylelint := (stylelint example_result)\<lparr>quiet := True\<rparr>\<rparr>) ''a{}''
   = (None,
      example_result\<lparr>stylelint := example_stylelint
        \<lparr>quiet := True,
         fixersData := [''color-no-hex'' \<mapsto> [\<lparr>fd_range = None, fixed = True\<rparr>]]\<rparr>\<rparr>,
      ''a{}/*fixed*/'')"
  using quiet_mode [of example_problem example_result "''a{}''"]
    quiet_mode [of "example_problem\<lparr>p_severity := Some (SeverityLiteral ''error'')\<rparr>"
      example_result "''a{}''"]
  by (simp add: report_def Let_def isFixApplied_def isDisabled_def addFixData_def
        example_defs pipeline_defs)

section \<open>Claims about the autofix gate\<close>

text \<open>
  C10. With a fix callback, fixing enabled, and a \<open>config.rules\<close> that is present
  but has no entry for the problem's rule, \<open>isFixApplied\<close> throws a TypeError
  instead of returning a decision, and records nothing.
\<close>

theorem isFixApplied_missing_rule_entry:
  assumes "config st = Some cfg" and "cfg_fix cfg" and "rules cfg = Some rs" and "rs ruleName = None"
  shows "isFixApplied (Some f) ln st ruleName doc =
     (Inl (TypeError ''Cannot read properties of undefined (reading '1')''), st, doc)"
  using assms
  by (simp add: isFixApplied_def shouldFix_def rule_disableFix_def config_of_def)

theorem isFixApplied_missing_rule_entry_witness:
  "isFixApplied (Some example_fix) 5
     (example_stylelint\<lparr>config := Some (example_config\<lparr>rules := Some Map.empty\<rparr>)\<rparr>)
     ''color-no-hex'' ''a{}'' =
   (Inl (TypeError ''Cannot read properties of undefined (reading '1')''),
    example_stylelint\<lparr>config := Some (example_config\<lparr>rules := Some Map.empty\<rparr>)\<rparr>, ''a{}'')"
  by (rule isFixApplied_missing_rule_entry [where cfg = "example_config\<lparr>rules := Some Map.empty\<rparr>"
        and rs = Map.empty])
     (simp_all add: example_defs)

text \<open>
  C3, at the input where the code departs from it: the problem reaches the gate with a
  fix callback, fixing is enabled, and \<open>config.rules\<close> has no entry for the rule.
  \<open>report\<close> throws the TypeError; no fix outcome is recorded under the rule and
  the callback is not invoked.
\<close>

theorem report_missing_rule_entry:
  "report example_problem
     (example_result\<lparr>stylelint :=
        example_stylelint\<lparr>config := Some (example_config\<lparr>rules := Some Map.empty\<rparr>)\<rparr>\<rparr>) ''a{}''
   = (Some (TypeError ''Cannot read properties of undefined (reading '1')''),
      example_result\<lparr>stylelint :=
        example_stylelint\<lparr>config := Some (example_config\<lparr>rules := Some Map.empty\<rparr>)\<rparr>\<rparr>, ''a{}'')
   \<and> fixersData (stylelint (fst (snd (report example_problem
     (example_result\<lparr>stylelint :=
        example_stylelint\<lparr>config := Some (example_config\<lparr>rules := Some Map.empty\<rparr>)\<rparr>\<rparr>) ''a{}''))))
       ''color-no-hex'' = None"
  by (simp add: report_def Let_def isFixApplied_def example_defs pipeline_defs)

section \<open>Claims about the emitter and the order of the stages\<close>

text \<open>
  C7. A problem that reaches the suppression check of the emitter (the quiet filter
  did not drop it, no error was thrown, the gate did not fix it) and whose rule and line
  are suppressed: \<open>report\<close> returns without an error, one suppression hit with the
  rule and the line is appended to \<open>disabledWarnings\<close> whatever
  \<open>ignoreDisables\<close> is, and the warning is appended to the messages exactly when
  \<open>ignoreDisables\<close> is set.
\<close>

theorem suppressed_candidate:
  assumes "\<not> (quiet (stylelint res) \<and> ruleSeverity_of problem (stylelint res) \<noteq> Some ''error'')"
    and "\<not> misused_fix problem (stylelint res)"
    and "startLine_of problem = Some l" and "l \<noteq> 0"
    and "isFixApplied (p_fix problem) l (stylelint res) (p_ruleName problem) doc = (Inr False, st1, doc1)"
    and "isDisabled (p_ruleName problem) l (disabledRanges (stylelint res))"
  shows "fst (report problem res doc) = None
    \<and> disabledWarnings (stylelint (fst (snd (report problem res doc)))) =
        Some ((case disabledWarnings (stylelint res) of None \<Rightarrow> [] | Some ws \<Rightarrow> ws)
                @ [\<lparr>dw_rule = p_ruleName problem, dw_line = l\<rparr>])
    \<and> messages (fst (snd (report problem res doc))) =
        (if ignoreDisables (config_of (stylelint res))
         then messages res @
           [\<lparr>w_text = buildWarningMessage
                       (case customMessages (stylelint res) (p_ruleName problem) of
                          None \<Rightarrow> p_message problem
                        | Some m \<Rightarrow> m)
                       (messageArgs_of problem),
             w_props = warningProperties_of problem (ruleSeverity_of problem (stylelint res))
                         (customUrls (stylelint res) (p_ruleName problem))\<rparr>]
         else messages res)"
proof -
  from isFixApplied_False_state [OF assms(5)]
  have st1: "st1 = (stylelint res)\<lparr>fixersData :=
      addFixData (fixersData (stylelint res)) (p_ruleName problem) None False\<rparr>"
    by simp
  show ?thesis
    unfolding report_not_fixed [OF assms(1-5)]
    using assms(6)
    by (simp add: messages_emit_warning disabledWarnings_emit_warning st1 push_disabledWarning_def)
qed

theorem suppressed_candidate_witness:
  "messages (fst (snd (report (example_problem\<lparr>p_fix := None\<rparr>)
      (example_result\<lparr>stylelint := example_stylelint\<lparr>disabledRanges := example_ranges\<rparr>\<rparr>) ''a{}''))) = []
   \<and> disabledWarnings (stylelint (fst (snd (report (example_problem\<lparr>p_fix := None\<rparr>)
      (example_result\<lparr>stylelint := example_stylelint\<lparr>disabledRanges := example_ranges\<rparr>\<rparr>) ''a{}''))))
      = Some [\<lparr>dw_rule = ''color-no-hex'', dw_line = 5\<rparr>]
   \<and> map w_text (messages (fst (snd (report (example_problem\<lparr>p_fix := None\<rparr>)
      (example_result\<lparr>stylelint := example_stylelint\<lparr>disabledRanges := example_ranges,
          config := Some (example_config\<lparr>ignoreDisables := True\<rparr>)\<rparr>\<rparr>) ''a{}''))))
      = [''Unexpected hex color #fff'']
   \<and> disabledWarnings (stylelint (fst (snd (report (example_problem\<lparr>p_fix := None\<rparr>)
      (example_result\<lparr>stylelint := example_stylelint\<lparr>disabledRanges := example_ranges,
          config := Some (example_config\<lparr>ignoreDisables := True\<rparr>)\<rparr>\<rparr>) ''a{}''))))
      = Some [\<lparr>dw_rule = ''color-no-hex'', dw_line = 5\<rparr>]"
  using suppressed_candidate [of
      "example_result\<lparr>stylelint := example_stylelint\<lparr>disabledRanges := example_ranges\<rparr>\<rparr>"
      "example_problem\<lparr>p_fix := None\<rparr>" 5 "''a{}''"
      "example_stylelint\<lparr>disabledRanges := example_ranges,
         fixersData := [''color-no-hex'' \<mapsto> [\<lparr>fd_range = None, fixed = False\<rparr>]]\<rparr>" "''a{}''"]
    suppressed_candidate [of
      "example_result\<lparr>stylelint := example_stylelint\<lparr>disabledRanges := example_ranges,
          config := Some (example_config\<lparr>ignoreDisables := True\<rparr>)\<rparr>\<rparr>"
      "example_problem\<lparr>p_fix := None\<rparr>" 5 "''a{}''"
      "example_stylelint\<lparr>disabledRanges := example_ranges,
         config := Some (example_config\<lparr>ignoreDisables := True\<rparr>),
         fixersData := [''color-no-hex'' \<mapsto> [\<lparr>fd_range = None, fixed = False\<rparr>]]\<rparr>" "''a{}''"]
  by (simp add: isFixApplied_def isDisabled_def addFixData_def range_matches_def RULE_NAME_ALL_def
        printfLike_def replace_placeholder_def
        example_defs pipeline_defs)

text \<open>
  C5, as the code has it. The stages run in this order: severity resolution; the quiet
  filter; the check of a misused fix callback; the resolution of the line; the autofix
  gate, which consults the suppression index and ends the pipeline when it fixes; the
  suppression check for reporting; the latches and the warning, whose text the
  formatter renders. Each stage decides the outcome only when the earlier ones let the
  problem through. In particular a problem dropped by the quiet filter never has its
  fix callback invoked, and a problem that passes the filter and the two error checks
  with \<open>mayFix\<close> true has its callback invoked and is consumed: one fix outcome with
  \<open>fixed = True\<close> and the returned range, no warning.
\<close>

theorem pipeline_order:
  "(quiet (stylelint res) \<and> ruleSeverity_of problem (stylelint res) \<noteq> Some ''error'' \<longrightarrow>
      report problem res doc = (None, res, doc))
   \<and> (\<not> (quiet (stylelint res) \<and> ruleSeverity_of problem (stylelint res) \<noteq> Some ''error'') \<longrightarrow>
       (misused_fix problem (stylelint res) \<longrightarrow>
          report problem res doc =
            (Some (Error (misused_fix_message (p_ruleName problem))), res, doc))
     \<and> (\<not> misused_fix problem (stylelint res) \<longrightarrow>
         (startLine_of problem = None \<or> startLine_of problem = Some 0 \<longrightarrow>
            report problem res doc =
              (Some (Error (unresolvable_line_message (p_ruleName problem))), res, doc))
       \<and> (\<forall>l. startLine_of problem = Some l \<and> l \<noteq> 0 \<longrightarrow>
           (\<forall>f. p_fix problem = Some f
                \<and> shouldFix (config_of (stylelint res)) (p_ruleName problem) = Inr True
                \<and> (ignoreDisables (config_of (stylelint res))
                     \<or> \<not> isDisabled (p_ruleName problem) l (disabledRanges (stylelint res))) \<longrightarrow>
              report problem res doc =
                (None,
                 res\<lparr>stylelint := (stylelint res)\<lparr>fixersData :=
                   addFixData (fixersData (stylelint res)) (p_ruleName problem) (fst (f doc)) True\<rparr>\<rparr>,
                 snd (f doc)))
         \<and> (\<forall>st1 doc1.
              isFixApplied (p_fix problem) l (stylelint res) (p_ruleName problem) doc
                = (Inr False, st1, doc1) \<longrightarrow>
              report problem res doc =
                (None,
                 (if isDisabled (p_ruleName problem) l (disabledRanges (stylelint res))
                  then if ignoreDisables (config_of (stylelint res))
                       then emit_warning problem
                              (res\<lparr>stylelint := push_disabledWarning st1 (p_ruleName problem) l\<rparr>)
                              (ruleSeverity_of problem (stylelint res))
                       else res\<lparr>stylelint := push_disabledWarning st1 (p_ruleName problem) l\<rparr>
                  else emit_warning problem (res\<lparr>stylelint := st1\<rparr>)
                         (ruleSeverity_of problem (stylelint res))),
                 doc)))))"
  by (intro conjI impI allI)
     (simp_all add: report_quiet_discard report_misused report_unresolvable report_fixed
        report_not_fixed)

theorem pipeline_order_witness:
  "report example_problem
     (example_result\<lparr>stylelint := example_stylelint\<lparr>quiet := True\<rparr>\<rparr>) ''a{}''
   = (None, example_result\<lparr>stylelint := example_stylelint\<lparr>quiet := True\<rparr>\<rparr>, ''a{}'')
   \<and> report example_problem example_result ''a{}''
   = (None,
      example_result\<lparr>stylelint := example_stylelint
        \<lparr>fixersData := [''color-no-hex'' \<mapsto> [\<lparr>fd_range = None, fixed = True\<rparr>]]\<rparr>\<rparr>,
      ''a{}/*fixed*/'')
   \<and> report (example_problem\<lparr>p_fix := None\<rparr>) example_result ''a{}''
   = (None,
      \<lparr>stylelint = example_stylelint
        \<lparr>fixersData := [''color-no-hex'' \<mapsto> [\<lparr>fd_range = None, fixed = False\<rparr>]],
         stylelintWarning := True\<rparr>,
       messages =
         [\<lparr>w_text = ''Unexpected hex color #fff'',
           w_props = \<lparr>wp_severity = Some ''warning'', wp_rule = ''color-no-hex'', wp_node = None,
             wp_start = None, wp_index = None, wp_end = None, wp_endIndex = None,
             wp_word = None, wp_url = None\<rparr>\<rparr>]\<rparr>,
      ''a{}'')"
  using pipeline_order [of "example_result\<lparr>stylelint := example_stylelint\<lparr>quiet := True\<rparr>\<rparr>"
      example_problem "''a{}''"]
    pipeline_order [of example_result example_problem "''a{}''"]
    pipeline_order [of example_result "example_problem\<lparr>p_fix := None\<rparr>" "''a{}''"]
  by (simp add: isFixApplied_def isDisabled_def addFixData_def
        emit_warning_def warn_def warningProperties_of_def truthy_string_def
        printfLike_def replace_placeholder_def
        example_defs pipeline_defs)

text \<open>In quiet mode, with the severity \<open>warning\<close>, the callback of a problem for which
  \<open>mayFix\<close> holds is not invoked: the document and the result stay as they were.\<close>

theorem pipeline_order_counterexample:
  "quiet (example_stylelint\<lparr>quiet := True\<rparr>)
   \<and> startLine_of example_problem = Some 5
   \<and> p_fix example_problem = Some example_fix
   \<and> shouldFix (config_of (example_stylelint\<lparr>quiet := True\<rparr>)) (p_ruleName example_problem) = Inr True
   \<and> \<not> isDisabled (p_ruleName example_problem) 5 (disabledRanges (example_stylelint\<lparr>quiet := True\<rparr>))
   \<and> report example_problem
        (example_result\<lparr>stylelint := example_stylelint\<lparr>quiet := True\<rparr>\<rparr>) ''a{}''
      = (None, example_result\<lparr>stylelint := example_stylelint\<lparr>quiet := True\<rparr>\<rparr>, ''a{}'')
   \<and> snd (example_fix ''a{}'') = ''a{}/*fixed*/''"
  by (simp add: report_def Let_def isDisabled_def example_defs pipeline_defs)

section \<open>Claims about the message formatter\<close>

lemma GetSubstitution_plain:
  "CHR ''$'' \<notin> set s \<Longrightarrow> GetSubstitution m p q s = s"
  by (induction m p q s rule: GetSubstitution.induct) auto

lemma placeholder_search_None:
  "placeholder_search acc t = None \<Longrightarrow> replace_first t s = t"
  by (induction acc t rule: placeholder_search.induct) (auto split: if_splits)

lemma placeholder_search_Some:
  "placeholder_search acc t = Some (p, m, q) \<Longrightarrow> p @ s @ q = acc @ replace_first t s"
  by (induction acc t rule: placeholder_search.induct) (auto split: if_splits)

lemma replace_first_Cons:
  "replace_first (c # r) s =
     (if starts_placeholder (c # r) then s @ tl r else c # replace_first r s)"
  by (cases r) (auto simp add: starts_placeholder_def)

declare replace_first.simps(1,2) [simp del]

lemma replace_placeholder_plain:
  assumes "CHR ''$'' \<notin> set s"
  shows "replace_placeholder t s = replace_first t s"
proof (cases "placeholder_search [] t")
  case None
  then show ?thesis
    by (simp add: replace_placeholder_def placeholder_search_None)
next
  case (Some pmq)
  then obtain p m q where "placeholder_search [] t = Some (p, m, q)"
    by (cases pmq) auto
  with placeholder_search_Some [of "[]" t p m q s] assms show ?thesis
    by (simp add: replace_placeholder_def GetSubstitution_plain)
qed

lemma substitute_positional_Nil [simp]: "substitute_positional t [] = t"
  by (cases t) simp_all

lemma substitute_positional_empty [simp]: "substitute_positional [] as = []"
  by (cases as) simp_all

lemma substitute_positional_Cons:
  "substitute_positional (c # r) (a # as) =
     (if starts_placeholder (c # r) then a @ substitute_positional (tl r) as
      else c # substitute_positional r (a # as))"
  by (cases r) (auto simp add: starts_placeholder_def)

lemma substitute_positional_skip:
  "\<not> starts_placeholder (c # r) \<Longrightarrow>
   substitute_positional (c # r) as = c # substitute_positional r as"
  by (cases as) (simp_all add: substitute_positional_Cons)

lemma not_starts_placeholder: "c \<noteq> CHR ''%'' \<Longrightarrow> \<not> starts_placeholder (c # r)"
  by (simp add: starts_placeholder_def split: list.splits)

lemma substitute_positional_append:
  "CHR ''%'' \<notin> set s \<Longrightarrow> substitute_positional (s @ t) as = s @ substitute_positional t as"
  by (induction s) (auto simp add: substitute_positional_skip not_starts_placeholder)

lemma npb_append:
  "CHR ''%'' \<notin> set s \<Longrightarrow>
   no_percent_before_placeholder (s @ t) = no_percent_before_placeholder t"
  by (induction s) auto

lemma npb_tl_tl:
  "no_percent_before_placeholder (c # r) \<Longrightarrow> no_percent_before_placeholder (tl r)"
  by (cases r) auto

lemma starts_placeholder_Cons:
  "starts_placeholder (c # r) \<longleftrightarrow>
     c = CHR ''%'' \<and> r \<noteq> [] \<and> (hd r = CHR ''d'' \<or> hd r = CHR ''s'')"
  by (cases r) (simp_all add: starts_placeholder_def)

lemma hd_replace_first:
  "\<not> starts_placeholder r \<Longrightarrow> r \<noteq> [] \<Longrightarrow>
   replace_first r s \<noteq> [] \<and> hd (replace_first r s) = hd r"
  by (cases r) (simp_all add: replace_first_Cons)

text \<open>With no placeholder at the head of \<open>c # r\<close> and none at the head of \<open>r\<close> when
  \<open>c\<close> is a percent sign, the replacement in \<open>r\<close> leaves no placeholder at the head.\<close>

lemma starts_placeholder_skip:
  assumes "\<not> starts_placeholder (c # r)" and "\<not> (c = CHR ''%'' \<and> starts_placeholder r)"
  shows "\<not> starts_placeholder (c # replace_first r s)"
proof (cases "c = CHR ''%''")
  case False
  then show ?thesis by (simp add: not_starts_placeholder)
next
  case True
  with assms(2) have nr: "\<not> starts_placeholder r" by simp
  show ?thesis
  proof (cases "r = []")
    case True
    then show ?thesis by (simp add: starts_placeholder_Cons)
  next
    case False
    from hd_replace_first [OF nr False, of s] assms(1) False show ?thesis
      by (simp add: starts_placeholder_Cons)
  qed
qed

lemma starts_placeholder_replace_first:
  assumes "\<not> starts_placeholder r" and "no_percent_before_placeholder r"
  shows "\<not> starts_placeholder (replace_first r s)"
proof (cases r)
  case Nil
  then show ?thesis by (simp add: starts_placeholder_def)
next
  case (Cons c2 r2)
  with assms have "\<not> starts_placeholder (c2 # r2)" and "\<not> (c2 = CHR ''%'' \<and> starts_placeholder r2)"
    by simp_all
  from starts_placeholder_skip [OF this, of s] assms(1) Cons show ?thesis
    by (simp add: replace_first_Cons)
qed

lemma npb_replace_first:
  "CHR ''%'' \<notin> set s \<Longrightarrow> no_percent_before_placeholder t \<Longrightarrow>
   no_percent_before_placeholder (replace_first t s)"
proof (induction t)
  case Nil
  then show ?case by simp
next
  case (Cons c r)
  show ?case
  proof (cases "starts_placeholder (c # r)")
    case True
    with Cons.prems npb_tl_tl [of c r] show ?thesis
      by (simp add: npb_append replace_first_Cons)
  next
    case False
    from Cons.prems(2) have r: "no_percent_before_placeholder r"
      and c: "\<not> (c = CHR ''%'' \<and> starts_placeholder r)"
      by simp_all
    from c r starts_placeholder_replace_first [of r s]
    have "\<not> (c = CHR ''%'' \<and> starts_placeholder (replace_first r s))"
      by blast
    with False Cons.IH [OF Cons.prems(1) r] show ?thesis
      by (simp add: replace_first_Cons)
  qed
qed

lemma substitute_positional_replace_first:
  "CHR ''%'' \<notin> set s \<Longrightarrow> no_percent_before_placeholder t \<Longrightarrow>
   substitute_positional (replace_first t s) as = substitute_positional t (s # as)"
proof (induction t)
  case Nil
  then show ?case by simp
next
  case (Cons c r)
  show ?case
  proof (cases "starts_placeholder (c # r)")
    case True
    with Cons.prems(1) show ?thesis
      by (simp add: replace_first_Cons substitute_positional_Cons substitute_positional_append)
  next
    case False
    from Cons.prems(2) have r: "no_percent_before_placeholder r"
      and c: "\<not> (c = CHR ''%'' \<and> starts_placeholder r)"
      by simp_all
    have "substitute_positional (replace_first (c # r) s) as
        = substitute_positional (c # replace_first r s) as"
      using False by (simp add: replace_first_Cons)
    also have "\<dots> = c # substitute_positional (replace_first r s) as"
      using starts_placeholder_skip [OF False c, of s] by (rule substitute_positional_skip)
    also have "\<dots> = c # substitute_positional r (s # as)"
      using Cons.IH [OF Cons.prems(1) r] by simp
    also have "\<dots> = substitute_positional (c # r) (s # as)"
      using False by (simp add: substitute_positional_Cons)
    finally show ?thesis .
  qed
qed

lemma printfLike_positional:
  "no_percent_before_placeholder t \<Longrightarrow> \<forall>a \<in> set args. plain_arg a \<Longrightarrow>
   printfLike t args = substitute_positional t (map String_of args)"
proof (induction args arbitrary: t)
  case Nil
  then show ?case by (simp add: printfLike_def)
next
  case (Cons a as)
  from Cons.prems have pa: "CHR ''%'' \<notin> set (String_of a)" "CHR ''$'' \<notin> set (String_of a)"
    by (simp_all add: plain_arg_def)
  have "printfLike t (a # as) = printfLike (replace_first t (String_of a)) as"
    by (simp add: printfLike_def replace_placeholder_plain [OF pa(2)])
  also have "\<dots> = substitute_positional (replace_first t (String_of a)) (map String_of as)"
    using Cons.prems by (intro Cons.IH npb_replace_first pa) simp_all
  also have "\<dots> = substitute_positional t (map String_of (a # as))"
    using Cons.prems(1) by (simp add: substitute_positional_replace_first pa)
  finally show ?case .
qed

lemma printfLike_no_placeholder:
  "placeholder_search [] t = None \<Longrightarrow> printfLike t args = t"
  by (induction args) (simp_all add: printfLike_def replace_placeholder_def)


lemma digit_char_plain: "digit_char n \<in> set ''0123456789''"
  unfolding digit_char_def by (rule nth_mem) simp

lemma digits_plain: "set (digits n) \<subseteq> set ''0123456789''"
proof (induction n rule: digits.induct)
  case (1 n)
  show ?case
  proof (cases "n < 10")
    case True
    with digit_char_plain [of n] show ?thesis
      by (subst digits.simps) simp
  next
    case False
    with "1" digit_char_plain [of n] show ?thesis
      by (subst digits.simps) simp
  qed
qed

lemma plain_arg_Num: "plain_arg (Num n)"
  using digits_plain [of "nat n"] digits_plain [of "nat (- n)"]
  by (auto simp: plain_arg_def)

text \<open>Where the formatter does what the specification says: a callable message is
  applied to the arguments and its result returned as it is; a template with no
  percent sign directly before a placeholder, given arguments whose string forms have
  no percent and no dollar sign, has its placeholders substituted from left to right
  (\<open>printfLike_positional\<close>); a template without placeholder is returned as it is
  (\<open>printfLike_no_placeholder\<close>); and the specification's example.\<close>

lemma buildWarningMessage_callable:
  "buildWarningMessage (MessageFn f) args = f args"
  by simp

lemma buildWarningMessage_example:
  "buildWarningMessage (MessageString ''Expected %s but found %d'') [Str ''a'', Num 1]
     = ''Expected a but found 1''"
  by (simp add: printfLike_def replace_placeholder_def digits.simps digit_char_def)

text \<open>
  C8, at inputs where the code departs from it. The claim has each placeholder of the
  template take the string form of the argument of its own position. With the template
  \<open>Unexpected %s in %s\<close> and the arguments \<open>%sidebar\<close> and \<open>a\<close> that is
  \<open>Unexpected %sidebar in a\<close>; \<open>printfLike\<close> gives \<open>Unexpected aidebar in %s\<close>,
  the second argument replacing the \<open>%s\<close> that the first one brought in. With the
  template \<open>cost %s\<close> and the argument \<open>$$5\<close> the claim gives \<open>cost $$5\<close>;
  \<open>printfLike\<close> gives \<open>cost $5\<close>, the replacement pattern \<open>$$\<close> being
  expanded.
\<close>

theorem printfLike_rescans:
  "buildWarningMessage (MessageString ''Unexpected %s in %s'') [Str ''%sidebar'', Str ''a'']
     = ''Unexpected aidebar in %s''
   \<and> substitute_positional ''Unexpected %s in %s'' (map String_of [Str ''%sidebar'', Str ''a''])
     = ''Unexpected %sidebar in a''
   \<and> buildWarningMessage (MessageString ''cost %s'') [Str ''$$5''] = ''cost $5''
   \<and> substitute_positional ''cost %s'' (map String_of [Str ''$$5'']) = ''cost $$5''"
  by (simp add: printfLike_def replace_placeholder_def)

section \<open>Claims about the reference rule\<close>

lemma checkClosingParen_always:
  "checkClosingParen ''always'' msgs v i nd =
     (if always_violation v i then [report_call (expected msgs) nd] else [])"
  by (auto simp add: checkClosingParen_def always_violation_def Let_def)

lemma concat_map_filter_replicate:
  "concat (map (\<lambda>i. if P i then [x] else []) xs) = replicate (length (filter P xs)) x"
  by (induction xs) simp_all

lemma set_styleSearch:
  "set (styleSearch v c) = {i. i < length v \<and> v ! i = c}"
  by (auto simp add: styleSearch_def)

text \<open>
  C9, as the code has it. In mode \<open>always\<close> the rule reports, for every declaration
  and every occurrence of the closing parenthesis in its value, one problem with the
  \<open>expected\<close> message exactly when the next character is not a single space that
  is itself not followed by whitespace, not another closing parenthesis, not a comma,
  and not the end of the value. Each problem carries the declaration node and nothing
  else that locates it: no index, no end index, no line, no start or end position.
\<close>

theorem function_space_after_always:
  "function_space_after ''always'' rm css =
     concat (map (\<lambda>decl.
       replicate
         (length (filter (always_violation (decl_value decl))
                    (styleSearch (decl_value decl) CHR '')'')))
         (report_call (expected (function_space_after_messages rm)) decl)) css)
   \<and> set (styleSearch v CHR '')'') = {i. i < length v \<and> v ! i = CHR '')''}
   \<and> distinct (styleSearch v CHR '')'')
   \<and> checkClosingParen ''always'' msgs v i nd =
       (if always_violation v i then [report_call (expected msgs) nd] else [])
   \<and> p_message (report_call m nd) = MessageString m
   \<and> p_node (report_call m nd) = Some nd
   \<and> p_index (report_call m nd) = None
   \<and> p_endIndex (report_call m nd) = None
   \<and> p_line (report_call m nd) = None
   \<and> p_start (report_call m nd) = None
   \<and> p_end (report_call m nd) = None"
  by (simp add: function_space_after_def checkClosingParen_always concat_map_filter_replicate
        set_styleSearch report_call_def)
     (simp add: styleSearch_def)

theorem function_space_after_always_witness:
  "(function_space_after ''always'' (\<lambda>name msgs. msgs)
      [example_decl ''translate(10px)scale(2)'', example_decl ''rgba(0,0,0,.5)'',
       example_decl ''f(a)  g(b) h(c)),d''] :: string problem list)
   = [report_call ''Expected single space after \")\"'' (example_decl ''translate(10px)scale(2)''),
      report_call ''Expected single space after \")\"'' (example_decl ''f(a)  g(b) h(c)),d'')]"
  using function_space_after_always [THEN conjunct1, of "\<lambda>name msgs. msgs"
      "[example_decl ''translate(10px)scale(2)'', example_decl ''rgba(0,0,0,.5)'',
        example_decl ''f(a)  g(b) h(c)),d'']"]
  by (simp add: example_decl_def styleSearch_def always_violation_def char_at_def isWhitespace_def
        function_space_after_messages_def upt_rec_numeral)

text \<open>The problem reported for the parenthesis at index 14 of the specification's
  example has no index; the two parentheses of \<open>a)b)c\<close> give the same problem.\<close>

theorem function_space_after_always_counterexample:
  "''translate(10px)scale(2)'' ! 14 = CHR '')''
   \<and> always_violation ''translate(10px)scale(2)'' 14
   \<and> (checkClosingParen ''always'' (function_space_after_messages (\<lambda>name msgs. msgs))
        ''translate(10px)scale(2)'' 14 (example_decl ''translate(10px)scale(2)'') :: string problem list)
       = [report_call ''Expected single space after \")\"'' (example_decl ''translate(10px)scale(2)'')]
   \<and> p_index (report_call ''Expected single space after \")\"''
        (example_decl ''translate(10px)scale(2)'') :: string problem) = None
   \<and> (checkClosingParen ''always'' (function_space_after_messages (\<lambda>name msgs. msgs))
        ''a)b)c'' 1 (example_decl ''a)b)c'') :: string problem list)
       = checkClosingParen ''always'' (function_space_after_messages (\<lambda>name msgs. msgs))
        ''a)b)c'' 3 (example_decl ''a)b)c'')
   \<and> (checkClosingParen ''always'' (function_space_after_messages (\<lambda>name msgs. msgs))
        ''a)b)c'' 1 (example_decl ''a)b)c'') :: string problem list) \<noteq> []"
  by (simp add: checkClosingParen_def always_violation_def char_at_def isWhitespace_def
        function_space_after_messages_def Let_def report_call_def)

end
